theory Spec2Isabelle
  imports Complex_Main "HOL-Library.AList"
begin

section \<open>Numeric cells of a data frame\<close>

text \<open>
  The service (\<^verbatim>\<open>ml_service.py\<close>) keeps prices and volumes in pandas columns of floating
  point numbers. Arithmetic on finite values is taken to be exact here (a \<open>real\<close>); what
  the development depends on is which cells are missing or infinite, so the three special
  values that pandas and numpy produce are constructors of their own: \<open>NaN\<close> (a missing
  cell, also the quotient \<open>0 / 0\<close>) and the two infinities (a non-zero number divided by
  zero).
\<close>

datatype float64 = Fin real | PInf | NInf | NaN

text \<open>numpy's division of two finite numbers: it never raises.\<close>

definition truediv :: "real \<Rightarrow> real \<Rightarrow> float64" where
  "truediv x y =
     (if y \<noteq> 0 then Fin (x / y)
      else if 0 < x then PInf
      else if x < 0 then NInf
      else NaN)"

text \<open>Subtracting a finite constant from a cell.\<close>

fun fsub :: "float64 \<Rightarrow> real \<Rightarrow> float64" where
  "fsub (Fin x) c = Fin (x - c)"
| "fsub PInf c = PInf"
| "fsub NInf c = NInf"
| "fsub NaN c = NaN"

text \<open>Multiplying a cell by a positive finite constant.\<close>

fun fscale :: "float64 \<Rightarrow> real \<Rightarrow> float64" where
  "fscale (Fin x) c = Fin (x * c)"
| "fscale PInf c = PInf"
| "fscale NInf c = NInf"
| "fscale NaN c = NaN"

fun isna :: "float64 \<Rightarrow> bool" where
  "isna NaN = True"
| "isna (Fin x) = False"
| "isna PInf = False"
| "isna NInf = False"

fun fin_opt :: "float64 \<Rightarrow> real option" where
  "fin_opt (Fin x) = Some x"
| "fin_opt PInf = None"
| "fin_opt NInf = None"
| "fin_opt NaN = None"

section \<open>Observations and the data frame\<close>

text \<open>
  One element of the \<^verbatim>\<open>data\<close> list of a request: a dict with the keys
  \<^verbatim>\<open>symbol\<close>, \<^verbatim>\<open>price\<close>, \<^verbatim>\<open>volume\<close>, \<^verbatim>\<open>timestamp\<close>. The timestamp is the
  value \<^verbatim>\<open>pd.to_datetime\<close> parses it to, a point on a linear time axis.
\<close>

record observation =
  symbol :: string
  price :: real
  volume :: real
  timestamp :: int

text \<open>
  \<^verbatim>\<open>df.sort_values('timestamp')\<close>. Rows with equal timestamps are kept in their input
  order here; pandas' default sort gives no such promise. A statement below that depends
  on the order of the rows is therefore either about inputs whose timestamps differ, or
  about the part of a method that follows the sort, for every frame the sort may have
  produced.
\<close>

definition sort_values :: "observation list \<Rightarrow> observation list" where
  "sort_values df = sort_key timestamp df"

text \<open>
  A row of the frame after \<^verbatim>\<open>_prepare_features\<close> has added its three columns: the
  observation's own columns and \<^verbatim>\<open>SMA_5\<close>, \<^verbatim>\<open>price_change_1d\<close>, \<^verbatim>\<open>target\<close>.
\<close>

record frame_row =
  obs :: observation
  SMA_5 :: float64
  price_change_1d :: float64
  target :: float64

text \<open>
  \<^verbatim>\<open>df['price'].rolling(window=5).mean()\<close>: the mean of the five prices ending at row
  \<open>i\<close>, missing for the first four rows.
\<close>

definition rolling_mean_5 :: "real list \<Rightarrow> nat \<Rightarrow> float64" where
  "rolling_mean_5 ps i =
     (if i < 4 then NaN else Fin (sum_list (take 5 (drop (i - 4) ps)) / 5))"

text \<open>
  \<^verbatim>\<open>df['price'].pct_change(1)\<close>, which pandas computes as
  \<^verbatim>\<open>price / price.shift(1) - 1\<close>: missing for the first row; a division by a zero price
  gives an infinity, or \<open>NaN\<close> when the price itself is zero.
\<close>

definition pct_change :: "real list \<Rightarrow> nat \<Rightarrow> float64" where
  "pct_change ps i =
     (if i = 0 then NaN else fsub (truediv (ps ! i) (ps ! (i - 1))) 1)"

text \<open>\<^verbatim>\<open>df['price'].shift(-1)\<close>: the next row's price, missing for the last row.\<close>

definition shift_back :: "real list \<Rightarrow> nat \<Rightarrow> float64" where
  "shift_back ps i = (if Suc i < length ps then Fin (ps ! Suc i) else NaN)"

definition add_columns :: "observation list \<Rightarrow> frame_row list" where
  "add_columns df =
     (let ps = map price df in
      map (\<lambda>i. \<lparr>obs = df ! i,
                 SMA_5 = rolling_mean_5 ps i,
                 price_change_1d = pct_change ps i,
                 target = shift_back ps i\<rparr>)
        [0..<length df])"

text \<open>
  \<^verbatim>\<open>df.dropna()\<close>: a row goes when any of its cells is missing. The observation's own
  columns hold finite numbers, so only the three derived columns can be missing. An
  infinite cell is not missing.
\<close>

definition row_has_na :: "frame_row \<Rightarrow> bool" where
  "row_has_na r = (isna (SMA_5 r) \<or> isna (price_change_1d r) \<or> isna (target r))"

definition dropna :: "frame_row list \<Rightarrow> frame_row list" where
  "dropna rows = filter (\<lambda>r. \<not> row_has_na r) rows"

text \<open>The feature columns, in the order \<^verbatim>\<open>['price', 'volume', 'SMA_5', 'price_change_1d']\<close>.\<close>

definition features :: "frame_row \<Rightarrow> float64 list" where
  "features r = [Fin (price (obs r)), Fin (volume (obs r)), SMA_5 r, price_change_1d r]"

definition prepare_features :: "observation list \<Rightarrow> float64 list list \<times> float64 list" where
  "prepare_features df =
     (let kept = dropna (add_columns df) in (map features kept, map target kept))"

section \<open>The model of one symbol\<close>

text \<open>
  The two scikit-learn objects are capabilities of the service, not part of it: what a
  fitted \<^verbatim>\<open>StandardScaler\<close> does to a row and what a fitted
  \<^verbatim>\<open>RandomForestRegressor\<close> (with its fixed \<^verbatim>\<open>random_state\<close>) predicts depend only
  on the data they were fitted on, so both are functions of that data, taken as a
  parameter of every operation below.
\<close>

record sklearn =
  scaler_transform :: "real list list \<Rightarrow> real list \<Rightarrow> real list"
  forest_predict :: "real list list \<Rightarrow> real list \<Rightarrow> real list \<Rightarrow> real"

text \<open>
  The scaler of a model is in one of three conditions. It has never been given a matrix;
  or it is fitted and holds the matrix of its last \<^verbatim>\<open>fit\<close>; or its last
  \<^verbatim>\<open>fit_transform\<close> raised while validating the matrix. In the last case \<^verbatim>\<open>fit\<close> has
  dropped the old parameters and written down the column names of the new frame before
  the validation failed: such a scaler passes scikit-learn's test for being fitted and
  has no parameters to transform with.
\<close>

datatype scaler = Unfitted | Failed | Fitted "real list list"

text \<open>
  \<^verbatim>\<open>class StockPriceModel\<close>. An unfitted forest is \<open>None\<close>; a fitted one holds the scaled
  matrix and the targets of its last \<^verbatim>\<open>fit\<close>.
\<close>

record StockPriceModel =
  self_symbol :: string
  self_model :: "(real list list \<times> real list) option"
  self_scaler :: scaler

definition init :: "string \<Rightarrow> StockPriceModel" where
  "init s = \<lparr>self_symbol = s, self_model = None, self_scaler = Unfitted\<rparr>"

definition is_fitted :: "StockPriceModel \<Rightarrow> bool" where
  "is_fitted m =
     (case self_scaler m of
        Fitted fitted_X \<Rightarrow> self_model m \<noteq> None
      | Unfitted \<Rightarrow> False
      | Failed \<Rightarrow> False)"

text \<open>Exceptions that leave a method, as opposed to the error dicts it returns.\<close>

datatype exn =
  ValueError | KeyError | IndexError | NotFittedError | AttributeError | RuntimeError

text \<open>A returned dict: \<^verbatim>\<open>{"error": msg}\<close> or the payload of a success.\<close>

datatype 'a result = ErrorDict string | Dict 'a

record prediction =
  pr_symbol :: string
  current_price :: real
  predicted_price :: real
  predicted_change :: real
  predicted_change_percent :: float64

record training =
  tr_current_price :: real
  tr_predicted_price :: real
  data_points :: nat

text \<open>
  scikit-learn validates its input before it fits or transforms: an infinite or missing
  cell raises \<^verbatim>\<open>ValueError\<close>. (The scaler would let a missing cell pass; none reaches it,
  \<^verbatim>\<open>dropna\<close> has removed them.)
\<close>

definition check_row :: "float64 list \<Rightarrow> real list option" where
  "check_row r = those (map fin_opt r)"

definition check_array :: "float64 list list \<Rightarrow> real list list option" where
  "check_array X = those (map check_row X)"

text \<open>
  \<^verbatim>\<open>StockPriceModel.predict\<close> from its call of \<^verbatim>\<open>_prepare_features\<close> on, given the frame
  \<open>df\<close> that its first three lines have built and sorted. pandas does not fix the order
  in which its sort leaves rows with equal timestamps, so what is proved of this function
  for every frame holds whatever that order is. The scaler tests that it is fitted
  before it looks at the row, and only its \<^verbatim>\<open>NotFittedError\<close> is caught; it validates the
  row before it reaches for its parameters. The payload's \<^verbatim>\<open>timestamp\<close>
  (\<^verbatim>\<open>datetime.now()\<close>) is left out.
\<close>

definition predict_frame :: "sklearn \<Rightarrow> StockPriceModel \<Rightarrow> observation list \<Rightarrow> exn + prediction result" where
  "predict_frame sk self df =
     (let X = fst (prepare_features df) in
      if X = [] then Inr (ErrorDict ''Not enough data for prediction'')
      else
        (case self_scaler self of
           Unfitted \<Rightarrow> Inr (ErrorDict ''Model not yet trained'')
         | Failed \<Rightarrow>
            (case check_row (last X) of
               None \<Rightarrow> Inl ValueError
             | Some x \<Rightarrow> Inl AttributeError)
         | Fitted fitted_X \<Rightarrow>
            (case check_row (last X) of
               None \<Rightarrow> Inl ValueError
             | Some x \<Rightarrow>
                (case self_model self of
                   None \<Rightarrow> Inl NotFittedError
                 | Some (Xs, ys) \<Rightarrow>
                    (let p = forest_predict sk Xs ys (scaler_transform sk fitted_X x);
                         cur = price (last df) in
                     Inr (Dict \<lparr>pr_symbol = self_symbol self,
                                 current_price = cur,
                                 predicted_price = p,
                                 predicted_change = p - cur,
                                 predicted_change_percent = fscale (truediv (p - cur) cur) 100\<rparr>))))))"

text \<open>
  \<^verbatim>\<open>StockPriceModel.predict\<close>. The frame of an empty list has no columns, and
  \<^verbatim>\<open>df['timestamp']\<close> raises \<^verbatim>\<open>KeyError\<close>.
\<close>

definition predict :: "sklearn \<Rightarrow> StockPriceModel \<Rightarrow> observation list \<Rightarrow> exn + prediction result" where
  "predict sk self current_data =
     (if current_data = [] then Inl KeyError
      else predict_frame sk self (sort_values current_data))"

text \<open>
  \<^verbatim>\<open>StockPriceModel.train\<close> from its call of \<^verbatim>\<open>_prepare_features\<close> on, given the sorted
  frame \<open>df\<close> and the list \<open>historical_data\<close> as it was passed in; it returns the result
  and the model as the call leaves it. A \<^verbatim>\<open>fit_transform\<close> that raises leaves the scaler
  failed. The preview at the end is a \<^verbatim>\<open>predict\<close> on \<^verbatim>\<open>historical_data[-10:]\<close>, the last
  ten elements of the list; when that returns an error dict, \<^verbatim>\<open>pred["predicted_price"]\<close>
  raises \<^verbatim>\<open>KeyError\<close>.
\<close>

definition train_frame :: "sklearn \<Rightarrow> StockPriceModel \<Rightarrow> observation list \<Rightarrow> observation list
    \<Rightarrow> (exn + training result) \<times> StockPriceModel" where
  "train_frame sk self df historical_data =
     (let (X, y) = prepare_features df in
      if length X < 10 then (Inr (ErrorDict ''Not enough data for training''), self)
      else
        (case check_array X of
           None \<Rightarrow> (Inl ValueError, self\<lparr>self_scaler := Failed\<rparr>)
         | Some Xr \<Rightarrow>
            (let self1 = self\<lparr>self_scaler := Fitted Xr\<rparr>;
                 X_scaled = map (scaler_transform sk Xr) Xr in
             case check_row y of
               None \<Rightarrow> (Inl ValueError, self1)
             | Some yr \<Rightarrow>
                (let self2 = self1\<lparr>self_model := Some (X_scaled, yr)\<rparr> in
                 if df = [] then (Inl IndexError, self2)
                 else
                   (let last_price = price (last df) in
                    case predict sk self2 (drop (length historical_data - 10) historical_data) of
                      Inl e \<Rightarrow> (Inl e, self2)
                    | Inr (ErrorDict msg) \<Rightarrow> (Inl KeyError, self2)
                    | Inr (Dict pred) \<Rightarrow>
                        (Inr (Dict \<lparr>tr_current_price = last_price,
                                    tr_predicted_price = predicted_price pred,
                                    data_points = length X\<rparr>), self2))))))"

text \<open>
  \<^verbatim>\<open>StockPriceModel.train\<close>. As in \<^verbatim>\<open>predict\<close>, an empty list raises \<^verbatim>\<open>KeyError\<close> at
  \<^verbatim>\<open>df['timestamp']\<close>, before the model is touched.
\<close>

definition train :: "sklearn \<Rightarrow> StockPriceModel \<Rightarrow> observation list \<Rightarrow> (exn + training result) \<times> StockPriceModel" where
  "train sk self historical_data =
     (if historical_data = [] then (Inl KeyError, self)
      else train_frame sk self (sort_values historical_data) historical_data)"

section \<open>The two stores and the endpoints\<close>

text \<open>
  The module's globals \<^verbatim>\<open>models\<close> and \<^verbatim>\<open>data_store\<close>. The background thread iterates
  over \<^verbatim>\<open>data_store.items()\<close>, so the store keeps its keys in the order of their first
  insertion, as a Python dict does: an association list with \<open>AList.update\<close>.
\<close>

record state =
  models :: "string \<rightharpoonup> StockPriceModel"
  data_store :: "(string \<times> observation list) list"

text \<open>
  The JSON body of \<^verbatim>\<open>POST /predict\<close>; a key that is absent or \<^verbatim>\<open>null\<close> is \<open>None\<close>.
\<close>

record payload =
  p_symbol :: "string option"
  p_data :: "observation list option"

datatype body =
    ErrorBody string
  | PendingBody string
  | PredictionBody prediction
  | DataBody "observation list"

type_synonym response = "body \<times> nat"

text \<open>The last three lines of \<^verbatim>\<open>predict_endpoint\<close>.\<close>

definition predict_response :: "sklearn \<Rightarrow> StockPriceModel \<Rightarrow> observation list \<Rightarrow> exn + response" where
  "predict_response sk m stock_data =
     (case predict sk m stock_data of
        Inl e \<Rightarrow> Inl e
      | Inr (ErrorDict msg) \<Rightarrow> Inr (ErrorBody msg, 200)
      | Inr (Dict p) \<Rightarrow> Inr (PredictionBody p, 200))"

text \<open>
  \<^verbatim>\<open>predict_endpoint\<close>: the response, or the exception that leaves the handler, and the
  state as the handler leaves it. \<^verbatim>\<open>not symbol\<close> holds of an absent and of an empty
  symbol, \<^verbatim>\<open>not stock_data\<close> of an absent and of an empty list.
\<close>

definition predict_endpoint :: "sklearn \<Rightarrow> payload \<Rightarrow> state \<Rightarrow> (exn + response) \<times> state" where
  "predict_endpoint sk pl st =
     (case (p_symbol pl, p_data pl) of
        (Some s, Some stock_data) \<Rightarrow>
          if s = [] \<or> stock_data = [] then (Inr (ErrorBody ''Symbol and data required'', 400), st)
          else
            (let st1 = st\<lparr>data_store := AList.update s stock_data (data_store st)\<rparr> in
             case models st1 s of
               Some m \<Rightarrow> (predict_response sk m stock_data, st1)
             | None \<Rightarrow>
                (case train sk (init s) stock_data of
                   (Inl e, candidate) \<Rightarrow> (Inl e, st1)
                 | (Inr (ErrorDict msg), candidate) \<Rightarrow> (Inr (PendingBody msg, 200), st1)
                 | (Inr (Dict t), candidate) \<Rightarrow>
                     (predict_response sk candidate stock_data,
                      st1\<lparr>models := (models st1)(s \<mapsto> candidate)\<rparr>)))
      | _ \<Rightarrow> (Inr (ErrorBody ''Symbol and data required'', 400), st))"

text \<open>\<^verbatim>\<open>get_data\<close>.\<close>

definition get_data :: "string \<Rightarrow> state \<Rightarrow> response" where
  "get_data s st =
     (case map_of (data_store st) s of
        None \<Rightarrow> (ErrorBody ''No data for this symbol'', 404)
      | Some d \<Rightarrow> (DataBody d, 200))"

section \<open>The background thread\<close>

text \<open>
  Requests are handled by other threads while the background thread runs. They are
  taken here to be served between two steps of its \<^verbatim>\<open>for\<close> loop, one after the other,
  their responses going to their callers: interleavings inside a call of \<^verbatim>\<open>train\<close> or
  of the handler are not described.
\<close>

fun serve :: "sklearn \<Rightarrow> payload list \<Rightarrow> state \<Rightarrow> state" where
  "serve sk [] st = st"
| "serve sk (pl # pls) st = serve sk pls (snd (predict_endpoint sk pl st))"

text \<open>
  The body of the \<^verbatim>\<open>for\<close> loop of \<^verbatim>\<open>background_training\<close> for one item. Nothing in it
  catches an exception: one raised by \<^verbatim>\<open>train\<close> leaves the loop (\<open>Some e\<close>) with the
  registry as it is then. The dict that \<^verbatim>\<open>train\<close> returns is not looked at.
\<close>

definition loop_body :: "sklearn \<Rightarrow> string \<times> observation list \<Rightarrow> state \<Rightarrow> exn option \<times> state" where
  "loop_body sk item st =
     (case item of
        (s, d) \<Rightarrow>
          if 20 \<le> length d then
            (let m = (case models st s of None \<Rightarrow> init s | Some m \<Rightarrow> m) in
             case train sk m d of
               (Inl e, m') \<Rightarrow> (Some e, st\<lparr>models := (models st)(s \<mapsto> m')\<rparr>)
             | (Inr r, m') \<Rightarrow> (None, st\<lparr>models := (models st)(s \<mapsto> m')\<rparr>))
          else (None, st))"

text \<open>
  \<^verbatim>\<open>for symbol, data in data_store.items()\<close> from its step number \<open>pos\<close> on. The
  iterator walks the live dict: each step first compares the dict's size with the size
  \<open>used\<close> it had when the iterator was made and raises \<^verbatim>\<open>RuntimeError\<close> when a key has
  been added since, then reads the item at its position as it is stored at that moment.
  \<open>sched\<close> lists, step by step, the requests that are served while the body of that step
  runs.
\<close>

function for_items :: "sklearn \<Rightarrow> nat \<Rightarrow> nat \<Rightarrow> payload list list \<Rightarrow> state \<Rightarrow> exn option \<times> state" where
  "for_items sk used pos sched st =
     (if length (data_store st) \<noteq> used then (Some RuntimeError, st)
      else if used \<le> pos then (None, st)
      else
        (case loop_body sk (data_store st ! pos) st of
           (Some e, st') \<Rightarrow> (Some e, st')
         | (None, st') \<Rightarrow>
             for_items sk used (Suc pos) (tl sched)
               (serve sk (case sched of [] \<Rightarrow> [] | pls # rest \<Rightarrow> pls) st')))"
  by pat_completeness auto
termination
  by (relation "measure (\<lambda>(sk, used, pos, sched, st). used - pos)") auto

declare for_items.simps [simp del]



section \<open>Notions used in the statements\<close>

text \<open>
  Rows \<open>i - 1\<close> and \<open>i\<close> of a frame both have price zero: the only case in which
  \<^verbatim>\<open>pct_change\<close> is missing at a row \<open>i > 0\<close>.
\<close>

definition zero_pair :: "observation list \<Rightarrow> nat \<Rightarrow> bool" where
  "zero_pair df i = (price (df ! (i - 1)) = 0 \<and> price (df ! i) = 0)"

text \<open>
  The tests for a returned success dict and for a returned error dict, as opposed to each
  other and to a raised exception.
\<close>

fun is_success :: "exn + 'a result \<Rightarrow> bool" where
  "is_success (Inr (Dict d)) = True"
| "is_success (Inr (ErrorDict msg)) = False"
| "is_success (Inl e) = False"

fun is_error :: "exn + 'a result \<Rightarrow> bool" where
  "is_error (Inr (ErrorDict msg)) = True"
| "is_error (Inr (Dict d)) = False"
| "is_error (Inl e) = False"

text \<open>
  The \<^verbatim>\<open>train\<close> calls made on a model one after the other, each given by the frame that
  its sort has produced and the list it was called with: their results, and the model
  after the last of them.
\<close>

fun train_calls :: "sklearn \<Rightarrow> StockPriceModel \<Rightarrow> (observation list \<times> observation list) list
    \<Rightarrow> (exn + training result) list \<times> StockPriceModel" where
  "train_calls sk m [] = ([], m)"
| "train_calls sk m ((df, xs) # calls) =
     (case train_frame sk m df xs of
        (r, m') \<Rightarrow> (case train_calls sk m' calls of (rs, m'') \<Rightarrow> (r # rs, m'')))"








text \<open>
  Sample data: observations at the timestamps \<open>0, 1, 2, \<dots>\<close> with the given prices.
  The service never reads an observation's own \<^verbatim>\<open>symbol\<close>; the symbol of a request is
  the one in its body.
\<close>

definition quote :: "int \<Rightarrow> real \<Rightarrow> observation" where
  "quote t p = \<lparr>symbol = ''AAA'', price = p, volume = 10, timestamp = t\<rparr>"

definition series :: "real list \<Rightarrow> observation list" where
  "series ps = map (\<lambda>(t, p). quote (int t) p) (enumerate 0 ps)"

definition rising10 :: "observation list" where
  "rising10 = series [100, 101, 102, 103, 104, 105, 106, 107, 108, 109]"

definition flat10 :: "observation list" where
  "flat10 = series [0, 0, 0, 0, 0, 0, 0, 0, 0, 0]"

definition spike7 :: "observation list" where
  "spike7 = series [1, 1, 1, 1, 0, 5, 1]"


definition rising15 :: "observation list" where
  "rising15 = series [100, 101, 102, 103, 104, 105, 106, 107, 108, 109, 110, 111, 112, 113, 114]"

definition flat20 :: "observation list" where
  "flat20 = series (replicate 20 0)"


definition spike20 :: "observation list" where
  "spike20 = series ([1, 1, 1, 1, 0, 5] @ replicate 14 1)"

definition tail20 :: "observation list" where
  "tail20 = series (replicate 13 1 @ replicate 7 0)"

text \<open>
  Stand-ins for the scikit-learn capabilities where a statement is evaluated on sample
  data. Both have a scaler that leaves rows as they are; the forest of the first
  predicts zero, the forest of the second answers with the first feature, the price, of
  the row it is given. No statement depends on what the two compute.
\<close>

definition plain_sklearn :: sklearn where
  "plain_sklearn = \<lparr>scaler_transform = (\<lambda>X x. x), forest_predict = (\<lambda>Xs ys x. 0)\<rparr>"



definition ingest :: "string \<Rightarrow> observation list \<Rightarrow> payload" where
  "ingest s d = \<lparr>p_symbol = Some s, p_data = Some d\<rparr>"




section \<open>The frame after \<^verbatim>\<open>dropna\<close>\<close>

lemma pct_isna: "isna (pct_change ps i) \<longleftrightarrow> i = 0 \<or> (ps ! (i - 1) = 0 \<and> ps ! i = 0)"
  by (auto simp: pct_change_def truediv_def)

lemma length_add_columns: "length (add_columns df) = length df"
  by (simp add: add_columns_def Let_def)

lemma nth_add_columns:
  "i < length df \<Longrightarrow> add_columns df ! i =
     \<lparr>obs = df ! i, SMA_5 = rolling_mean_5 (map price df) i,
      price_change_1d = pct_change (map price df) i, target = shift_back (map price df) i\<rparr>"
  by (simp add: add_columns_def Let_def)

lemma row_has_na_add_columns:
  "i < length df \<Longrightarrow> row_has_na (add_columns df ! i) \<longleftrightarrow>
     \<not> (4 \<le> i \<and> Suc i < length df \<and> \<not> zero_pair df i)"
  by (auto simp: nth_add_columns row_has_na_def pct_isna rolling_mean_5_def shift_back_def zero_pair_def)

lemma filter_nth_upt: "filter P xs = map (nth xs) (filter (\<lambda>i. P (xs ! i)) [0..<length xs])"
proof -
  have "filter P (map (nth xs) [0..<length xs]) = map (nth xs) (filter (P \<circ> nth xs) [0..<length xs])"
    by (rule filter_map)
  then show ?thesis by (simp add: map_nth comp_def)
qed

lemma filter_upt_window:
  "filter (\<lambda>i. a \<le> i \<and> i < b \<and> Q i) [0..<n] = filter Q [a..<min b n]"
proof (induction n)
  case 0
  then show ?case by simp
next
  case (Suc n)
  show ?case
  proof (cases "n < b")
    case True
    then have m: "min b (Suc n) = Suc n" "min b n = n" by simp_all
    show ?thesis using Suc True by (cases "a \<le> n") (simp_all add: m)
  next
    case False
    then have m: "min b (Suc n) = b" "min b n = b" by simp_all
    show ?thesis using Suc False by (simp add: m)
  qed
qed

lemma dropna_add_columns:
  "dropna (add_columns df) =
     map (nth (add_columns df)) (filter (\<lambda>i. \<not> zero_pair df i) [4..<length df - 1])"
proof -
  let ?n = "length df"
  have "filter (\<lambda>i. \<not> row_has_na (add_columns df ! i)) [0..<?n] =
        filter (\<lambda>i. 4 \<le> i \<and> i < ?n - 1 \<and> \<not> zero_pair df i) [0..<?n]"
    by (rule filter_cong) (auto simp: row_has_na_add_columns)
  also have "\<dots> = filter (\<lambda>i. \<not> zero_pair df i) [4..<min (?n - 1) ?n]"
    by (rule filter_upt_window)
  also have "min (?n - 1) ?n = ?n - 1" by simp
  finally show ?thesis
    unfolding dropna_def by (subst filter_nth_upt) (simp add: length_add_columns)
qed


lemma sort_values_sorted: "sorted (map timestamp xs) \<Longrightarrow> sort_values xs = xs"
  by (simp add: sort_values_def sort_key_id_if_sorted)

lemma length_filter_eq_iff: "length (filter P xs) = length xs \<longleftrightarrow> (\<forall>x\<in>set xs. P x)"
proof
  assume "length (filter P xs) = length xs"
  then show "\<forall>x\<in>set xs. P x"
    using length_filter_less [of _ xs P] by fastforce
next
  assume "\<forall>x\<in>set xs. P x"
  then show "length (filter P xs) = length xs" by simp
qed

lemma length_prepare_features:
  "length (fst (prepare_features df)) = length (filter (\<lambda>i. \<not> zero_pair df i) [4..<length df - 1])"
  by (simp add: prepare_features_def Let_def dropna_add_columns)

lemma kept_timestamps_sorted:
  assumes "sorted_wrt (<) (map timestamp df)"
  shows "sorted_wrt (<) (map (timestamp \<circ> obs) (dropna (add_columns df)))"
proof -
  let ?is = "filter (\<lambda>i. \<not> zero_pair df i) [4..<length df - 1]"
  have idx: "sorted_wrt (<) ?is" by (simp add: sorted_wrt_filter)
  have bound: "\<forall>i\<in>set ?is. i < length df" by auto
  have mono: "\<And>i j. i < j \<Longrightarrow> j < length df \<Longrightarrow> timestamp (df ! i) < timestamp (df ! j)"
    using assms by (simp add: sorted_wrt_iff_nth_less)
  have "map (timestamp \<circ> obs) (dropna (add_columns df)) = map (\<lambda>i. timestamp (df ! i)) ?is"
    unfolding dropna_add_columns using bound by (simp add: nth_add_columns)
  moreover have "sorted_wrt (<) (map (\<lambda>i. timestamp (df ! i)) ?is)"
    unfolding sorted_wrt_map
    by (rule sorted_wrt_mono_rel [OF _ idx]) (use bound mono in auto)
  ultimately show ?thesis by simp
qed


lemma map_nth_upt: "b \<le> length xs \<Longrightarrow> map (nth xs) [a..<b] = take (b - a) (drop a xs)"
  by (rule nth_equalityI) auto

lemma kept_obs:
  "map obs (dropna (add_columns df)) = map (nth df) (filter (\<lambda>i. \<not> zero_pair df i) [4..<length df - 1])"
  unfolding dropna_add_columns by (auto simp: nth_add_columns)

lemma kept_rows_member:
  "i < length df \<Longrightarrow> add_columns df ! i \<in> set (dropna (add_columns df))
     \<longleftrightarrow> 4 \<le> i \<and> Suc i < length df \<and> \<not> zero_pair df i"
  unfolding dropna_def using row_has_na_add_columns [of i df]
  by (auto simp: length_add_columns)

lemma pct_change_nonzero:
  "0 < i \<Longrightarrow> ps ! (i - 1) \<noteq> 0 \<Longrightarrow>
     pct_change ps i = Fin ((ps ! i - ps ! (i - 1)) / ps ! (i - 1))"
  by (simp add: pct_change_def truediv_def diff_divide_distrib)

lemma pct_change_zero:
  "0 < i \<Longrightarrow> ps ! (i - 1) = 0 \<Longrightarrow>
     pct_change ps i = (if 0 < ps ! i then PInf else if ps ! i < 0 then NInf else NaN)"
  by (simp add: pct_change_def truediv_def)

section \<open>Outcomes of \<^verbatim>\<open>train\<close> and \<^verbatim>\<open>predict\<close>\<close>

lemma prepare_features_Nil: "prepare_features [] = ([], [])"
  by (simp add: prepare_features_def add_columns_def dropna_def)

lemma sort_values_Nil_iff: "sort_values xs = [] \<longleftrightarrow> xs = []"
  using length_sort [of timestamp xs] by (auto simp: sort_values_def simp del: length_sort)

lemma predict_nonempty: "xs \<noteq> [] \<Longrightarrow> predict sk m xs = predict_frame sk m (sort_values xs)"
  by (simp add: predict_def)

lemma train_nonempty: "xs \<noteq> [] \<Longrightarrow> train sk m xs = train_frame sk m (sort_values xs) xs"
  by (simp add: train_def)

lemma rows_nonempty: "fst (prepare_features (sort_values xs)) \<noteq> [] \<Longrightarrow> xs \<noteq> []"
  by (auto simp: sort_values_def prepare_features_Nil)

lemma train_frame_insufficient:
  "length (fst (prepare_features df)) < 10 \<Longrightarrow>
     train_frame sk m df xs = (Inr (ErrorDict ''Not enough data for training''), m)"
  by (cases "prepare_features df") (simp add: train_frame_def)

lemma predict_frame_unfitted:
  "fst (prepare_features df) \<noteq> [] \<Longrightarrow> self_scaler m = Unfitted \<Longrightarrow>
     predict_frame sk m df = Inr (ErrorDict ''Model not yet trained'')"
  by (simp add: predict_frame_def Let_def)

lemma those_map_last:
  "those (map f xs) = Some ys \<Longrightarrow> xs \<noteq> [] \<Longrightarrow> f (last xs) = Some (last ys) \<and> ys \<noteq> []"
proof (induction xs arbitrary: ys)
  case Nil
  then show ?case by simp
next
  case (Cons x xs)
  then show ?case
    by (cases xs) (auto split: option.splits)
qed

lemma train_frame_success:
  assumes "is_success (fst (train_frame sk m df xs))"
  shows "\<exists>Xr yr. check_array (fst (prepare_features df)) = Some Xr
           \<and> 10 \<le> length (fst (prepare_features df))
           \<and> snd (train_frame sk m df xs)
               = m\<lparr>self_scaler := Fitted Xr, self_model := Some (map (scaler_transform sk Xr) Xr, yr)\<rparr>"
proof -
  obtain X y where xy: "prepare_features df = (X, y)"
    by (cases "prepare_features df")
  show ?thesis
    using assms xy
    by (auto simp: train_frame_def Let_def split: if_splits option.splits sum.splits result.splits)
qed

lemma train_success:
  assumes "is_success (fst (train sk m xs))"
  shows "\<exists>Xr yr. xs \<noteq> [] \<and> check_array (fst (prepare_features (sort_values xs))) = Some Xr
           \<and> 10 \<le> length (fst (prepare_features (sort_values xs)))
           \<and> snd (train sk m xs)
               = m\<lparr>self_scaler := Fitted Xr, self_model := Some (map (scaler_transform sk Xr) Xr, yr)\<rparr>"
proof (cases "xs = []")
  case True
  then show ?thesis using assms by (simp add: train_def)
next
  case False
  then show ?thesis
    using assms train_frame_success [of sk m "sort_values xs" xs] by (simp add: train_nonempty)
qed

lemma predict_frame_fitted:
  assumes "check_array (fst (prepare_features df)) = Some Xr"
    and "fst (prepare_features df) \<noteq> []"
    and "self_scaler m = Fitted F" and "self_model m = Some (Xs, ys)"
  shows "is_success (predict_frame sk m df)"
proof -
  from those_map_last [OF assms(1) [unfolded check_array_def] assms(2)]
  obtain x where "check_row (last (fst (prepare_features df))) = Some x"
    by blast
  then show ?thesis
    using assms(2-4) by (simp add: predict_frame_def Let_def)
qed

section \<open>The last surviving row\<close>







section \<open>The request handler\<close>

lemma endpoint_rejects:
  "p_symbol pl = None \<or> p_symbol pl = Some [] \<or> p_data pl = None \<or> p_data pl = Some [] \<Longrightarrow>
     predict_endpoint sk pl st = (Inr (ErrorBody ''Symbol and data required'', 400), st)"
  by (auto simp: predict_endpoint_def split: option.splits)

lemma endpoint_data_store:
  "s \<noteq> [] \<Longrightarrow> d \<noteq> [] \<Longrightarrow>
     data_store (snd (predict_endpoint sk (ingest s d) st)) = AList.update s d (data_store st)"
  by (simp add: predict_endpoint_def ingest_def Let_def
      split: option.splits prod.splits sum.splits result.splits)

section \<open>What a training leaves behind\<close>


lemma train_frame_error_keeps_model:
  "fst (train_frame sk m df xs) = Inr (ErrorDict msg) \<Longrightarrow> snd (train_frame sk m df xs) = m"
proof -
  obtain X y where xy: "prepare_features df = (X, y)"
    by (cases "prepare_features df")
  show "fst (train_frame sk m df xs) = Inr (ErrorDict msg) \<Longrightarrow> snd (train_frame sk m df xs) = m"
    by (auto simp: train_frame_def xy Let_def split: if_splits option.splits sum.splits result.splits)
qed

lemma train_error_keeps_model:
  "fst (train sk m d) = Inr (ErrorDict msg) \<Longrightarrow> snd (train sk m d) = m"
  using train_frame_error_keeps_model [of sk m "sort_values d" d msg]
  by (cases "d = []") (simp_all add: train_def)

lemma train_success_fitted:
  "is_success (fst (train sk m d)) \<Longrightarrow> is_fitted (snd (train sk m d))"
  using train_success [of sk m d] by (auto simp: is_fitted_def)

lemma train_keeps_fitted:
  assumes "is_fitted m" and "\<not> isl (fst (train sk m d))"
  shows "is_fitted (snd (train sk m d))"
proof (cases "fst (train sk m d)")
  case (Inl e)
  then show ?thesis using assms(2) by simp
next
  case (Inr r)
  then show ?thesis
    using assms(1) train_error_keeps_model [of sk m d] train_success_fitted [of sk m d]
    by (cases r) simp_all
qed


lemma train_calls_all_errors:
  "\<forall>r \<in> set (fst (train_calls sk m calls)). is_error r \<Longrightarrow> snd (train_calls sk m calls) = m"
proof (induction calls arbitrary: m)
  case Nil
  then show ?case by simp
next
  case (Cons call calls)
  obtain df xs where call: "call = (df, xs)" by (cases call)
  obtain r m' where t: "train_frame sk m df xs = (r, m')" by (cases "train_frame sk m df xs")
  obtain rs m'' where c: "train_calls sk m' calls = (rs, m'')" by (cases "train_calls sk m' calls")
  from Cons.prems have e: "is_error r" and es: "\<forall>r \<in> set rs. is_error r"
    by (simp_all add: call t c)
  from e obtain msg where "r = Inr (ErrorDict msg)"
    by (cases r rule: is_error.cases) simp_all
  then have mm: "m' = m"
    using train_frame_error_keeps_model [of sk m df xs msg] by (simp add: t)
  have e': "m'' = m'"
    using Cons.IH [of m'] es by (simp add: c)
  show ?case
    using c e' by (simp add: call t mm)
qed

section \<open>A pass of the background loop\<close>






subsection \<open>A pass with no request\<close>





subsection \<open>Passes with requests\<close>













text \<open>A request that adds a symbol while a pass is under way ends the thread.\<close>

lemma for_items_new_symbol:
  assumes "length (data_store st) = used" and "pos < used"
    and "loop_body sk (data_store st ! pos) st = (None, st')"
    and "length (data_store (serve sk pls st')) \<noteq> used"
  shows "for_items sk used pos (pls # sched) st = (Some RuntimeError, serve sk pls st')"
  using assms
  by (simp add: for_items.simps [of sk used pos] for_items.simps [of sk used "Suc pos"])



section \<open>Feature rows of a training call\<close>

text \<open>
  C1. For a sequence of at least ten observations given in strictly increasing
  timestamp order, the features that \<^verbatim>\<open>train\<close> derives have exactly \<open>n - 5\<close> rows
  if and only if no row \<open>i\<close> from 4 to \<open>n - 2\<close> has a zero price together with its
  predecessor; there are as many targets as feature rows; the rows are in timestamp
  order; and when there are \<open>n - 5\<close> of them they are the rows of the observations
  4 to \<open>n - 2\<close>: the first four lost to the moving average, the last to the target.
\<close>

theorem derive_training_rows:
  assumes "10 \<le> length xs" and "sorted_wrt (<) (map timestamp xs)"
  shows "(length (fst (prepare_features (sort_values xs))) = length xs - 5
            \<longleftrightarrow> (\<forall>i\<in>{4..<length xs - 1}. \<not> zero_pair xs i))
       \<and> length (snd (prepare_features (sort_values xs))) = length (fst (prepare_features (sort_values xs)))
       \<and> sorted_wrt (<) (map (timestamp \<circ> obs) (dropna (add_columns (sort_values xs))))
       \<and> ((\<forall>i\<in>{4..<length xs - 1}. \<not> zero_pair xs i)
            \<longrightarrow> map obs (dropna (add_columns (sort_values xs))) = take (length xs - 5) (drop 4 xs))"
proof -
  have s: "sort_values xs = xs"
    using assms(2) by (simp add: sort_values_sorted strict_sorted_imp_sorted)
  have len: "length [4..<length xs - 1] = length xs - 5" by simp
  have a: "length (fst (prepare_features xs)) = length xs - 5
            \<longleftrightarrow> (\<forall>i\<in>{4..<length xs - 1}. \<not> zero_pair xs i)"
    unfolding length_prepare_features
    using length_filter_eq_iff [of "\<lambda>i. \<not> zero_pair xs i" "[4..<length xs - 1]"] by simp
  have b: "length (snd (prepare_features xs)) = length (fst (prepare_features xs))"
    by (simp add: prepare_features_def Let_def)
  have c: "sorted_wrt (<) (map (timestamp \<circ> obs) (dropna (add_columns xs)))"
    using assms(2) by (rule kept_timestamps_sorted)
  have d: "map obs (dropna (add_columns xs)) = take (length xs - 5) (drop 4 xs)"
    if "\<forall>i\<in>{4..<length xs - 1}. \<not> zero_pair xs i"
  proof -
    have "filter (\<lambda>i. \<not> zero_pair xs i) [4..<length xs - 1] = [4..<length xs - 1]"
      using that by simp
    then show ?thesis by (simp add: kept_obs map_nth_upt)
  qed
  show ?thesis using a b c d by (simp add: s)
qed

theorem derive_training_rows_witness:
  "10 \<le> length rising10 \<and> sorted_wrt (<) (map timestamp rising10)
   \<and> length (fst (prepare_features (sort_values rising10))) = 5
   \<and> map (price \<circ> obs) (dropna (add_columns (sort_values rising10))) = [104, 105, 106, 107, 108]"
proof -
  have h1: "10 \<le> length rising10" by code_simp
  have h2: "sorted_wrt (<) (map timestamp rising10)" by code_simp
  have h3: "\<forall>i\<in>{4..<length rising10 - 1}. \<not> zero_pair rising10 i" by code_simp
  have h4: "length rising10 - 5 = 5" by code_simp
  have h5: "map price (take (length rising10 - 5) (drop 4 rising10)) = [104, 105, 106, 107, 108]" by code_simp
  from derive_training_rows [OF h1 h2] h3 h4 h5 h1 h2 show ?thesis
    by (simp flip: map_map)
qed

theorem derive_training_rows_counterexample:
  "10 \<le> length flat10 \<and> sorted_wrt (<) (map timestamp flat10)
   \<and> length (fst (prepare_features (sort_values flat10))) = 0
   \<and> length flat10 - 5 = 5"
  by code_simp

section \<open>The one-step price change\<close>

text \<open>
  C4. At every row \<open>i > 0\<close> of the frame, \<^verbatim>\<open>price_change_1d\<close> is
  \<open>(price[i] - price[i-1]) / price[i-1]\<close> when \<open>price[i-1]\<close> is not zero; when it is zero
  the cell is an infinity for a non-zero \<open>price[i]\<close> and missing only for
  \<open>price[i] = 0\<close>. The row survives \<^verbatim>\<open>dropna\<close> exactly when \<open>4 \<le> i\<close>, it is not the
  last row, and \<open>price[i-1]\<close> and \<open>price[i]\<close> are not both zero: a zero \<open>price[i-1]\<close>
  alone does not remove it. \<^verbatim>\<open>train\<close> and \<^verbatim>\<open>predict\<close> derive their rows by this one
  function.
\<close>

theorem price_change_1d_rows:
  assumes "0 < i" and "i < length df"
  shows "(price (df ! (i - 1)) \<noteq> 0 \<longrightarrow>
            price_change_1d (add_columns df ! i)
              = Fin ((price (df ! i) - price (df ! (i - 1))) / price (df ! (i - 1))))
       \<and> (price (df ! (i - 1)) = 0 \<longrightarrow>
            price_change_1d (add_columns df ! i)
              = (if 0 < price (df ! i) then PInf else if price (df ! i) < 0 then NInf else NaN))
       \<and> (add_columns df ! i \<in> set (dropna (add_columns df))
            \<longleftrightarrow> 4 \<le> i \<and> Suc i < length df \<and> \<not> (price (df ! (i - 1)) = 0 \<and> price (df ! i) = 0))"
proof -
  have p: "map price df ! i = price (df ! i)" "map price df ! (i - 1) = price (df ! (i - 1))"
    using assms by simp_all
  have a: "price_change_1d (add_columns df ! i) = pct_change (map price df) i"
    using assms by (simp add: nth_add_columns)
  show ?thesis
    using assms pct_change_nonzero [of i "map price df"] pct_change_zero [of i "map price df"]
      kept_rows_member [of i df]
    by (simp add: a p zero_pair_def)
qed

theorem price_change_1d_rows_witness:
  "price_change_1d (add_columns rising10 ! 5) = Fin (1 / 104)
   \<and> add_columns rising10 ! 5 \<in> set (dropna (add_columns rising10))"
proof -
  have h1: "(0::nat) < 5" by simp
  have h2: "5 < length rising10" by code_simp
  have h3: "price (rising10 ! (5 - 1)) = 104" "price (rising10 ! 5) = 105" by code_simp+
  have h4: "length rising10 = 10" by code_simp
  from price_change_1d_rows [OF h1 h2] h3 h4 show ?thesis by simp
qed

theorem price_change_1d_rows_counterexample:
  "price (spike7 ! (5 - 1)) = 0
   \<and> price_change_1d (add_columns (sort_values spike7) ! 5) = PInf
   \<and> add_columns (sort_values spike7) ! 5 \<in> set (dropna (add_columns (sort_values spike7)))
   \<and> fst (prepare_features (sort_values spike7))
       = [[Fin 0, Fin 10, Fin (4 / 5), Fin (- 1)], [Fin 5, Fin 10, Fin (8 / 5), PInf]]"
  by code_simp

section \<open>Results of \<^verbatim>\<open>train\<close> and \<^verbatim>\<open>predict\<close>\<close>

text \<open>
  C5. When fewer than ten rows of the frame survive, \<^verbatim>\<open>train\<close> returns the error dict
  with the fixed message \<^verbatim>\<open>Not enough data for training\<close> and leaves the model as it
  was, whatever order the sort has given the frame; so does \<^verbatim>\<open>train\<close> itself on every
  non-empty list with such a frame. The dict holds nothing else: two inputs with
  different numbers of surviving rows get the same result.
\<close>

theorem train_too_few_rows:
  assumes "length (fst (prepare_features df)) < 10"
  shows "train_frame sk m df xs = (Inr (ErrorDict ''Not enough data for training''), m)
       \<and> (xs \<noteq> [] \<and> sort_values xs = df \<longrightarrow>
            train sk m xs = (Inr (ErrorDict ''Not enough data for training''), m))"
  using train_frame_insufficient [OF assms, of sk m xs] by (auto simp: train_nonempty)

theorem train_too_few_rows_witness:
  "rising10 \<noteq> []
   \<and> length (fst (prepare_features (sort_values rising10))) = 5
   \<and> train plain_sklearn (init ''AAA'') rising10
       = (Inr (ErrorDict ''Not enough data for training''), init ''AAA'')"
proof -
  have h: "length (fst (prepare_features (sort_values rising10))) < 10" by code_simp
  have n: "rising10 \<noteq> []" by code_simp
  have l: "length (fst (prepare_features (sort_values rising10))) = 5" by code_simp
  from train_too_few_rows [OF h, of plain_sklearn "init ''AAA''" rising10] n l
  show ?thesis by simp
qed

theorem train_too_few_rows_counterexample:
  "length (fst (prepare_features (sort_values rising10))) = 5
   \<and> length (fst (prepare_features (sort_values flat10))) = 0
   \<and> fst (train plain_sklearn (init ''AAA'') rising10)
       = fst (train plain_sklearn (init ''AAA'') flat10)"
  by code_simp

text \<open>
  C6. On a model that is new, or on which every \<^verbatim>\<open>train\<close> so far has returned its error
  dict, \<^verbatim>\<open>predict\<close> with a frame of at least one surviving row returns the error dict
  \<^verbatim>\<open>Model not yet trained\<close> and nothing else, whatever order the sorts have given the
  frames. Nothing is said here of a model on which a \<^verbatim>\<open>train\<close> has raised.
\<close>

theorem predict_before_train:
  assumes "\<forall>r \<in> set (fst (train_calls sk (init s) calls)). is_error r"
    and "fst (prepare_features df) \<noteq> []"
  shows "predict_frame sk (snd (train_calls sk (init s) calls)) df
           = Inr (ErrorDict ''Model not yet trained'')
       \<and> (xs \<noteq> [] \<and> sort_values xs = df \<longrightarrow>
            predict sk (snd (train_calls sk (init s) calls)) xs
              = Inr (ErrorDict ''Model not yet trained''))"
proof -
  have "snd (train_calls sk (init s) calls) = init s"
    using assms(1) by (rule train_calls_all_errors)
  then have "predict_frame sk (snd (train_calls sk (init s) calls)) df
               = Inr (ErrorDict ''Model not yet trained'')"
    using predict_frame_unfitted [OF assms(2), of "init s" sk] by (simp add: init_def)
  then show ?thesis by (auto simp: predict_nonempty)
qed

theorem predict_before_train_witness:
  "fst (train_calls plain_sklearn (init ''AAA'')
          [(sort_values flat20, flat20), (sort_values rising10, rising10)])
     = [Inr (ErrorDict ''Not enough data for training''), Inr (ErrorDict ''Not enough data for training'')]
   \<and> predict plain_sklearn
        (snd (train_calls plain_sklearn (init ''AAA'')
               [(sort_values flat20, flat20), (sort_values rising10, rising10)])) rising10
       = Inr (ErrorDict ''Model not yet trained'')"
proof -
  have r: "fst (train_calls plain_sklearn (init ''AAA'')
                  [(sort_values flat20, flat20), (sort_values rising10, rising10)])
             = [Inr (ErrorDict ''Not enough data for training''), Inr (ErrorDict ''Not enough data for training'')]"
    by code_simp
  then have h1: "\<forall>r \<in> set (fst (train_calls plain_sklearn (init ''AAA'')
                  [(sort_values flat20, flat20), (sort_values rising10, rising10)])). is_error r"
    by simp
  have h2: "fst (prepare_features (sort_values rising10)) \<noteq> []" by code_simp
  have n: "rising10 \<noteq> []" by code_simp
  from predict_before_train [OF h1 h2, of rising10] r n show ?thesis by simp
qed

theorem predict_before_train_counterexample:
  "fst (prepare_features (sort_values rising10)) \<noteq> []
   \<and> fst (train plain_sklearn (init ''AAA'') spike20) = Inl ValueError
   \<and> predict plain_sklearn (snd (train plain_sklearn (init ''AAA'') spike20)) rising10
       = Inl AttributeError
   \<and> fst (train plain_sklearn (init ''AAA'') tail20) = Inl KeyError
   \<and> is_success (predict plain_sklearn (snd (train plain_sklearn (init ''AAA'') tail20)) rising10)"
  by code_simp

text \<open>
  C7. When \<^verbatim>\<open>train\<close> returns its success dict, \<^verbatim>\<open>predict\<close> on the same sequence with
  the model as \<^verbatim>\<open>train\<close> left it does not return \<^verbatim>\<open>Model not yet trained\<close>, does not
  raise \<^verbatim>\<open>NotFittedError\<close>, and in fact returns a prediction.
\<close>

theorem predict_after_train:
  assumes "is_success (fst (train sk m xs))"
  shows "predict sk (snd (train sk m xs)) xs \<noteq> Inr (ErrorDict ''Model not yet trained'')
       \<and> predict sk (snd (train sk m xs)) xs \<noteq> Inl NotFittedError
       \<and> is_success (predict sk (snd (train sk m xs)) xs)"
proof -
  from train_success [OF assms] obtain Xr yr where
    x: "xs \<noteq> []"
    and c: "check_array (fst (prepare_features (sort_values xs))) = Some Xr"
    and l: "10 \<le> length (fst (prepare_features (sort_values xs)))"
    and m': "snd (train sk m xs)
               = m\<lparr>self_scaler := Fitted Xr, self_model := Some (map (scaler_transform sk Xr) Xr, yr)\<rparr>"
    by blast
  from l have ne: "fst (prepare_features (sort_values xs)) \<noteq> []" by auto
  have "is_success (predict_frame sk (snd (train sk m xs)) (sort_values xs))"
    by (rule predict_frame_fitted [OF c ne]) (simp_all add: m')
  then have "is_success (predict sk (snd (train sk m xs)) xs)"
    by (simp add: predict_nonempty x)
  then show ?thesis by auto
qed

theorem predict_after_train_witness:
  "is_success (fst (train plain_sklearn (init ''AAA'') rising15))
   \<and> is_success (predict plain_sklearn (snd (train plain_sklearn (init ''AAA'') rising15)) rising15)"
proof -
  have h: "is_success (fst (train plain_sklearn (init ''AAA'') rising15))" by code_simp
  from predict_after_train [OF h] h show ?thesis by simp
qed


section \<open>The row that \<^verbatim>\<open>predict\<close> uses\<close>




section \<open>The ingest endpoint and the history store\<close>

text \<open>
  C8. A request to \<^verbatim>\<open>POST /predict\<close> whose symbol or data is absent or empty is answered
  with status 400 and \<^verbatim>\<open>Symbol and data required\<close>, and both stores are as they were.
\<close>

theorem ingest_invalid_input:
  assumes "p_symbol pl = None \<or> p_symbol pl = Some [] \<or> p_data pl = None \<or> p_data pl = Some []"
  shows "predict_endpoint sk pl st = (Inr (ErrorBody ''Symbol and data required'', 400), st)"
  using assms by (rule endpoint_rejects)

theorem ingest_invalid_input_witness:
  "predict_endpoint plain_sklearn \<lparr>p_symbol = Some ''AAA'', p_data = Some []\<rparr>
       \<lparr>models = Map.empty, data_store = [(''AAA'', rising10)]\<rparr>
     = (Inr (ErrorBody ''Symbol and data required'', 400),
        \<lparr>models = Map.empty, data_store = [(''AAA'', rising10)]\<rparr>)"
  using ingest_invalid_input [of "\<lparr>p_symbol = Some ''AAA'', p_data = Some []\<rparr>" plain_sklearn
      "\<lparr>models = Map.empty, data_store = [(''AAA'', rising10)]\<rparr>"]
  by simp

text \<open>
  C9. A valid request stores its batch under its symbol in place of whatever was stored
  there, whatever the training does afterwards: after one such request, and after the
  same request again, the store holds the batch for the symbol, the second request
  leaves the store as the first did, and \<^verbatim>\<open>GET /data/<symbol>\<close> returns the batch as it
  was sent.
\<close>

theorem history_replace:
  assumes "s \<noteq> []" and "d \<noteq> []"
  shows "map_of (data_store (snd (predict_endpoint sk (ingest s d) st))) s = Some d
       \<and> data_store (snd (predict_endpoint sk (ingest s d) (snd (predict_endpoint sk (ingest s d) st))))
           = data_store (snd (predict_endpoint sk (ingest s d) st))
       \<and> get_data s (snd (predict_endpoint sk (ingest s d) st)) = (DataBody d, 200)
       \<and> get_data s (snd (predict_endpoint sk (ingest s d) (snd (predict_endpoint sk (ingest s d) st))))
           = (DataBody d, 200)"
  using assms by (simp add: endpoint_data_store get_data_def update_conv')

theorem history_replace_witness:
  "get_data ''AAA'' (snd (predict_endpoint plain_sklearn (ingest ''AAA'' rising10)
       \<lparr>models = Map.empty, data_store = [(''AAA'', flat10)]\<rparr>)) = (DataBody rising10, 200)"
proof -
  have h1: "''AAA'' \<noteq> []" by simp
  have h2: "rising10 \<noteq> []" by code_simp
  from history_replace [OF h1 h2] show ?thesis by simp
qed

section \<open>Which models the registry holds\<close>




section \<open>Failures in the background thread\<close>





end
